theory Spec2Isabelle
  imports Main "HOL-Library.Word" "HOL-Library.Sublist" "HOL-Library.AList"
begin

unbundle bit_operations_syntax

section \<open>Python string primitives used by key-parser.py\<close>

text \<open>
  A Python \<open>str\<close> is modelled as a \<open>string\<close>; a \<open>char\<close> stands for the code point
  of the same number (0 to 255).  The whitespace of \<open>str.strip\<close> and \<open>str.split\<close> is
  \<open>str.isspace\<close>: below 256 these are the code points 9 to 13, 28 to 32, 133 and 160.
\<close>

definition py_isspace :: "char \<Rightarrow> bool" where
  "py_isspace c =
     (let n = (of_char c :: nat)
      in (9 \<le> n \<and> n \<le> 13) \<or> (28 \<le> n \<and> n \<le> 32) \<or> n = 133 \<or> n = 160)"

definition py_strip :: "string \<Rightarrow> string" where
  "py_strip s = rev (dropWhile py_isspace (rev (dropWhile py_isspace s)))"

text \<open>\<open>s.split()\<close>: the maximal runs of non-whitespace, in order; \<open>cur\<close> is the run being read.\<close>

fun split_run :: "string \<Rightarrow> string \<Rightarrow> string list" where
  "split_run cur [] = (if cur = [] then [] else [cur])"
| "split_run cur (c # cs) =
     (if py_isspace c then (if cur = [] then split_run [] cs else cur # split_run [] cs)
      else split_run (cur @ [c]) cs)"

definition py_split :: "string \<Rightarrow> string list" where
  "py_split s = split_run [] s"

text \<open>\<open>needle in hay\<close> on strings: \<open>needle\<close> occurs as a contiguous run.\<close>

fun contains :: "string \<Rightarrow> string \<Rightarrow> bool" where
  "contains [] needle = (needle = [])"
| "contains (c # cs) needle = (prefix needle (c # cs) \<or> contains cs needle)"

text \<open>\<open>part.split('=', 1)\<close> for a \<open>part\<close> that holds an \<open>=\<close>: the text before the first
  \<open>=\<close> and the text after it.\<close>

definition split_eq :: "string \<Rightarrow> string \<times> string" where
  "split_eq part =
     (takeWhile (\<lambda>c. c \<noteq> CHR ''='') part, drop 1 (dropWhile (\<lambda>c. c \<noteq> CHR ''='') part))"

text \<open>\<open>sep.join(xs)\<close>.\<close>

fun py_join :: "string \<Rightarrow> string list \<Rightarrow> string" where
  "py_join sep [] = []"
| "py_join sep [x] = x"
| "py_join sep (x # y # ys) = x @ sep @ py_join sep (y # ys)"

text \<open>\<open>xs[i:]\<close> for a Python integer \<open>i\<close>: a negative index counts from the end, and
  an index out of range is clamped.\<close>

definition py_slice_from :: "'a list \<Rightarrow> int \<Rightarrow> 'a list" where
  "py_slice_from xs i =
     (if i < 0 then drop (nat (int (length xs) + i)) xs else drop (nat i) xs)"

text \<open>A dict keeps its keys in insertion order; assigning to a key that is present
  replaces the value in place.\<close>

type_synonym ('k, 'v) dict = "('k \<times> 'v) list"

definition dict_set :: "('k, 'v) dict \<Rightarrow> 'k \<Rightarrow> 'v \<Rightarrow> ('k, 'v) dict" where
  "dict_set d k v = AList.update k v d"

definition dict_get :: "('k, 'v) dict \<Rightarrow> 'k \<Rightarrow> 'v option" where
  "dict_get d k = map_of d k"

definition dict_values :: "('k, 'v) dict \<Rightarrow> 'v list" where
  "dict_values d = map snd d"

section \<open>Regular expressions of the log parser\<close>

text \<open>
  \<open>re.search\<close> tries the start positions from left to right, the end of the line
  included, and returns the first match.  Every pattern of the source is a literal followed
  by one greedy group over a character class (\<open>lit ([class]{n,})\<close>), or an alternation of
  literals; \<open>m\<close> is the match of a pattern at the start of a text, giving group 1.
\<close>

fun re_search :: "(string \<Rightarrow> string option) \<Rightarrow> string \<Rightarrow> string option" where
  "re_search m [] = m []"
| "re_search m (c # cs) = (case m (c # cs) of Some g \<Rightarrow> Some g | None \<Rightarrow> re_search m cs)"

definition match_lit_class :: "string \<Rightarrow> (char \<Rightarrow> bool) \<Rightarrow> nat \<Rightarrow> string \<Rightarrow> string option" where
  "match_lit_class lit cls n s =
     (if prefix lit s
      then (let run = takeWhile cls (drop (length lit) s)
            in if n \<le> length run then Some run else None)
      else None)"

fun match_alternatives :: "string list \<Rightarrow> string \<Rightarrow> string option" where
  "match_alternatives [] s = None"
| "match_alternatives (a # as) s = (if prefix a s then Some a else match_alternatives as s)"

definition in_range :: "char \<Rightarrow> char \<Rightarrow> char \<Rightarrow> bool" where
  "in_range lo hi c = ((of_char lo :: nat) \<le> of_char c \<and> (of_char c :: nat) \<le> of_char hi)"

text \<open>\<open>[A-Za-z0-9+/=]\<close> and \<open>[a-f0-9:]\<close>.\<close>

definition cls_base64 :: "char \<Rightarrow> bool" where
  "cls_base64 c =
     (in_range CHR ''A'' CHR ''Z'' c \<or> in_range CHR ''a'' CHR ''z'' c \<or> in_range CHR ''0'' CHR ''9'' c
      \<or> c = CHR ''+'' \<or> c = CHR ''/'' \<or> c = CHR ''='')"

definition cls_hex_colon :: "char \<Rightarrow> bool" where
  "cls_hex_colon c =
     (in_range CHR ''a'' CHR ''f'' c \<or> in_range CHR ''0'' CHR ''9'' c \<or> c = CHR '':'')"

text \<open>A ranked list of patterns: the first pattern that matches anywhere in the line wins.\<close>

fun first_match :: "(string \<Rightarrow> string option) list \<Rightarrow> string \<Rightarrow> string option" where
  "first_match [] line = None"
| "first_match (m # ms) line =
     (case re_search m line of Some g \<Rightarrow> Some g | None \<Rightarrow> first_match ms line)"

section \<open>base64.b64decode\<close>

text \<open>
  \<open>base64.b64decode(s)\<close> with a \<open>str\<close> argument first encodes \<open>s\<close> as ASCII, raising
  \<open>ValueError\<close> on a code point above 127, and then calls \<open>binascii.a2b_base64\<close> in its
  lenient mode: characters outside the alphabet are dropped, a pad character counts only
  after two or three data characters of a quad, enough pad characters end the input, and
  a quad left open at the end of the input raises \<open>binascii.Error\<close>.
\<close>

type_synonym byte = "8 word"

datatype py_error = ValueError | BinasciiError

definition table_a2b_base64 :: "char \<Rightarrow> byte option" where
  "table_a2b_base64 c =
     (let n = (of_char c :: nat)
      in if 65 \<le> n \<and> n \<le> 90 then Some (of_nat (n - 65))
         else if 97 \<le> n \<and> n \<le> 122 then Some (of_nat (n - 71))
         else if 48 \<le> n \<and> n \<le> 57 then Some (of_nat (n + 4))
         else if n = 43 then Some 62
         else if n = 47 then Some 63
         else None)"

fun a2b_base64 :: "nat \<Rightarrow> byte \<Rightarrow> nat \<Rightarrow> byte list \<Rightarrow> string \<Rightarrow> py_error + byte list" where
  "a2b_base64 quad_pos leftchar pads out [] =
     (if quad_pos \<noteq> 0 then Inl BinasciiError else Inr out)"
| "a2b_base64 quad_pos leftchar pads out (c # cs) =
     (if c = CHR ''='' then
        (if 2 \<le> quad_pos \<and> 4 \<le> quad_pos + (pads + 1) then Inr out
         else a2b_base64 quad_pos leftchar (if 2 \<le> quad_pos then pads + 1 else pads) out cs)
      else
        (case table_a2b_base64 c of
           None \<Rightarrow> a2b_base64 quad_pos leftchar pads out cs
         | Some v \<Rightarrow>
             (if quad_pos = 0 then a2b_base64 1 v 0 out cs
              else if quad_pos = 1 then
                a2b_base64 2 (v AND 0x0f) 0 (out @ [push_bit 2 leftchar OR drop_bit 4 v]) cs
              else if quad_pos = 2 then
                a2b_base64 3 (v AND 0x03) 0 (out @ [push_bit 4 leftchar OR drop_bit 2 v]) cs
              else
                a2b_base64 0 0 0 (out @ [push_bit 6 leftchar OR v]) cs)))"

definition b64decode :: "string \<Rightarrow> py_error + byte list" where
  "b64decode s =
     (if \<exists>c \<in> set s. 128 \<le> (of_char c :: nat) then Inl ValueError
      else a2b_base64 0 0 0 [] s)"

section \<open>hashlib.md5\<close>

text \<open>MD5 as in RFC 1321, on 32-bit words; \<open>hexdigest\<close> renders the 16 bytes of the digest
  as lowercase hexadecimal.\<close>

type_synonym u32 = "32 word"

definition md5_s :: "nat list" where
  "md5_s =
     [7, 12, 17, 22, 7, 12, 17, 22, 7, 12, 17, 22, 7, 12, 17, 22,
      5, 9, 14, 20, 5, 9, 14, 20, 5, 9, 14, 20, 5, 9, 14, 20,
      4, 11, 16, 23, 4, 11, 16, 23, 4, 11, 16, 23, 4, 11, 16, 23,
      6, 10, 15, 21, 6, 10, 15, 21, 6, 10, 15, 21, 6, 10, 15, 21]"

definition md5_K :: "u32 list" where
  "md5_K =
     [0xd76aa478, 0xe8c7b756, 0x242070db, 0xc1bdceee,
      0xf57c0faf, 0x4787c62a, 0xa8304613, 0xfd469501,
      0x698098d8, 0x8b44f7af, 0xffff5bb1, 0x895cd7be,
      0x6b901122, 0xfd987193, 0xa679438e, 0x49b40821,
      0xf61e2562, 0xc040b340, 0x265e5a51, 0xe9b6c7aa,
      0xd62f105d, 0x02441453, 0xd8a1e681, 0xe7d3fbc8,
      0x21e1cde6, 0xc33707d6, 0xf4d50d87, 0x455a14ed,
      0xa9e3e905, 0xfcefa3f8, 0x676f02d9, 0x8d2a4c8a,
      0xfffa3942, 0x8771f681, 0x6d9d6122, 0xfde5380c,
      0xa4beea44, 0x4bdecfa9, 0xf6bb4b60, 0xbebfbc70,
      0x289b7ec6, 0xeaa127fa, 0xd4ef3085, 0x04881d05,
      0xd9d4d039, 0xe6db99e5, 0x1fa27cf8, 0xc4ac5665,
      0xf4292244, 0x432aff97, 0xab9423a7, 0xfc93a039,
      0x655b59c3, 0x8f0ccc92, 0xffeff47d, 0x85845dd1,
      0x6fa87e4f, 0xfe2ce6e0, 0xa3014314, 0x4e0811a1,
      0xf7537e82, 0xbd3af235, 0x2ad7d2bb, 0xeb86d391]"

type_synonym md5_state = "u32 \<times> u32 \<times> u32 \<times> u32"

definition md5_init :: md5_state where
  "md5_init = (0x67452301, 0xefcdab89, 0x98badcfe, 0x10325476)"

definition md5_step :: "u32 list \<Rightarrow> md5_state \<Rightarrow> nat \<Rightarrow> md5_state" where
  "md5_step M st i =
     (case st of (A, B, C, D) \<Rightarrow>
        (let (F, g) =
               (if i < 16 then ((B AND C) OR (NOT B AND D), i)
                else if i < 32 then ((D AND B) OR (NOT D AND C), (5 * i + 1) mod 16)
                else if i < 48 then (B XOR C XOR D, (3 * i + 5) mod 16)
                else (C XOR (B OR NOT D), (7 * i) mod 16));
             F' = F + A + md5_K ! i + M ! g
         in (D, B + word_rotl (md5_s ! i) F', B, C)))"

definition le32 :: "byte list \<Rightarrow> u32" where
  "le32 bs =
     ucast (bs ! 0) OR push_bit 8 (ucast (bs ! 1)) OR push_bit 16 (ucast (bs ! 2))
       OR push_bit 24 (ucast (bs ! 3))"

definition md5_block :: "md5_state \<Rightarrow> byte list \<Rightarrow> md5_state" where
  "md5_block st chunk =
     (let M = map (\<lambda>j. le32 (take 4 (drop (4 * j) chunk))) [0..<16]
      in case (st, foldl (md5_step M) st [0..<64]) of
           ((a0, b0, c0, d0), (A, B, C, D)) \<Rightarrow> (a0 + A, b0 + B, c0 + C, d0 + D))"

definition md5_pad :: "byte list \<Rightarrow> byte list" where
  "md5_pad bs =
     bs @ [0x80] @ replicate ((119 - length bs mod 64) mod 64) 0
        @ map (\<lambda>k. ucast (drop_bit (8 * k) (of_nat (8 * length bs) :: 64 word))) [0..<8]"

definition bytes_of_u32 :: "u32 \<Rightarrow> byte list" where
  "bytes_of_u32 w = [ucast w, ucast (drop_bit 8 w), ucast (drop_bit 16 w), ucast (drop_bit 24 w)]"

definition md5 :: "byte list \<Rightarrow> byte list" where
  "md5 bs =
     (let p = md5_pad bs;
          chunks = map (\<lambda>k. take 64 (drop (64 * k) p)) [0..<length p div 64]
      in case foldl md5_block md5_init chunks of
           (a, b, c, d) \<Rightarrow> bytes_of_u32 a @ bytes_of_u32 b @ bytes_of_u32 c @ bytes_of_u32 d)"

definition hex_digit :: "nat \<Rightarrow> char" where
  "hex_digit n = ''0123456789abcdef'' ! n"

definition hex2 :: "byte \<Rightarrow> string" where
  "hex2 b = [hex_digit (unat b div 16), hex_digit (unat b mod 16)]"

definition hexdigest :: "byte list \<Rightarrow> string" where
  "hexdigest digest = concat (map hex2 digest)"

section \<open>SSHKeyParser: fingerprints and the parsing of authorized_keys lines\<close>

text \<open>\<open>_generate_fingerprint\<close>: any exception of the decoding is caught and turned into
  the sentinel \<open>unknown\<close>; the key type is not used.\<close>

definition generate_fingerprint :: "string \<Rightarrow> string \<Rightarrow> string" where
  "generate_fingerprint key_type key_data =
     (case b64decode key_data of
        Inl e \<Rightarrow> ''unknown''
      | Inr key_bytes \<Rightarrow>
          (let md5_hash = hexdigest (md5 key_bytes)
           in py_join '':''
                (map (\<lambda>i. take 2 (drop i md5_hash))
                   (map (\<lambda>k. 2 * k) [0..<(length md5_hash + 1) div 2]))))"

text \<open>The dict that \<open>_parse_authorized_key_line\<close> returns; \<open>line_number\<close> is the key that
  only \<open>_load_authorized_keys\<close> adds.\<close>

record key_info =
  ki_type :: string
  ki_data :: string
  ki_fingerprint :: string
  ki_comment :: string
  ki_options :: "(string, string) dict"
  ki_full_line :: string
  ki_line_number :: "nat option"

text \<open>The loop \<open>for part in parts[2:-1]\<close> over the option tokens.\<close>

fun options_loop :: "(string, string) dict \<Rightarrow> string list \<Rightarrow> (string, string) dict" where
  "options_loop options [] = options"
| "options_loop options (part # parts) =
     (if CHR ''='' \<in> set part
      then (case split_eq part of (key, val) \<Rightarrow> options_loop (dict_set options key val) parts)
      else options_loop options parts)"

definition parse_authorized_key_line :: "string \<Rightarrow> key_info option" where
  "parse_authorized_key_line line =
     (let parts = py_split line
      in if length parts < 2 then None
         else
           (let key_type = parts ! 0;
                key_data = parts ! 1;
                comment = (if length parts > 2 then parts ! 2 else []);
                fingerprint = generate_fingerprint key_type key_data;
                options = (if length parts > 3 then options_loop [] (butlast (drop 2 parts)) else [])
            in Some \<lparr> ki_type = key_type, ki_data = key_data, ki_fingerprint = fingerprint,
                      ki_comment = comment, ki_options = options, ki_full_line = line,
                      ki_line_number = None \<rparr>))"

section \<open>Files, the key cache and the lookups of SSHKeyParser\<close>

text \<open>
  A file is absent, present but failing to open (\<open>open\<close> raises, which every caller
  catches), or present with the list of lines that iterating over it yields, each line with
  its line terminator when it has one.
\<close>

datatype text_file = Missing | Unreadable | Lines "string list"

type_synonym key_cache = "(string, key_info) dict"

text \<open>\<open>_load_authorized_keys\<close>: \<open>n\<close> is the number of the line, counted from 1.\<close>

fun load_loop :: "key_cache \<Rightarrow> nat \<Rightarrow> string list \<Rightarrow> key_cache" where
  "load_loop cache n [] = cache"
| "load_loop cache n (l # ls) =
     (let line = py_strip l
      in if line = [] \<or> prefix ''#'' line then load_loop cache (n + 1) ls
         else
           (case parse_authorized_key_line line of
              None \<Rightarrow> load_loop cache (n + 1) ls
            | Some key_info \<Rightarrow>
                load_loop
                  (dict_set cache (ki_fingerprint key_info) (key_info\<lparr>ki_line_number := Some n\<rparr>))
                  (n + 1) ls))"

definition load_authorized_keys :: "text_file \<Rightarrow> key_cache" where
  "load_authorized_keys f =
     (case f of Missing \<Rightarrow> [] | Unreadable \<Rightarrow> [] | Lines ls \<Rightarrow> load_loop [] 1 ls)"

definition find_key_by_fingerprint :: "key_cache \<Rightarrow> string \<Rightarrow> key_info option" where
  "find_key_by_fingerprint key_cache fingerprint = dict_get key_cache fingerprint"

text \<open>\<open>_find_key_by_data\<close> reads the file again; it tests \<open>startswith('#')\<close> on the line as
  read, not on the stripped line.\<close>

fun find_key_by_data_loop :: "string list \<Rightarrow> string \<Rightarrow> key_info option" where
  "find_key_by_data_loop [] key_data = None"
| "find_key_by_data_loop (l # ls) key_data =
     (if py_strip l \<noteq> [] \<and> \<not> prefix ''#'' l
      then (let parts = py_split (py_strip l)
            in if length parts \<ge> 2 \<and> parts ! 1 = key_data
               then parse_authorized_key_line (py_strip l)
               else find_key_by_data_loop ls key_data)
      else find_key_by_data_loop ls key_data)"

definition find_key_by_data :: "text_file \<Rightarrow> string \<Rightarrow> key_info option" where
  "find_key_by_data f key_data =
     (case f of Missing \<Rightarrow> None | Unreadable \<Rightarrow> None
      | Lines ls \<Rightarrow> find_key_by_data_loop ls key_data)"

section \<open>AuthLogParser\<close>

record connection_info =
  ci_fingerprint :: string
  ci_key_type :: string
  ci_auth_method :: string
  ci_key_data :: string

definition fingerprint_patterns :: "(string \<Rightarrow> string option) list" where
  "fingerprint_patterns =
     [match_lit_class ''RSA SHA256:'' cls_base64 1,
      match_lit_class ''ED25519 SHA256:'' cls_base64 1,
      match_lit_class ''ECDSA SHA256:'' cls_base64 1,
      match_lit_class ''DSA SHA256:'' cls_base64 1,
      match_lit_class ''key fingerprint '' cls_hex_colon 1,
      match_lit_class ''fingerprint '' cls_hex_colon 1]"

definition key_data_patterns :: "(string \<Rightarrow> string option) list" where
  "key_data_patterns =
     [match_lit_class ''key '' cls_base64 50,
      match_lit_class ''RSA '' cls_base64 50,
      match_lit_class ''ED25519 '' cls_base64 50,
      match_lit_class ''ECDSA '' cls_base64 50,
      match_lit_class ''DSA '' cls_base64 50]"

definition parse_ssh_connection_line :: "string \<Rightarrow> connection_info" where
  "parse_ssh_connection_line line =
     \<lparr> ci_fingerprint =
         (case first_match fingerprint_patterns line of Some g \<Rightarrow> g | None \<Rightarrow> ''unknown''),
       ci_key_type =
         (case re_search (match_alternatives [''RSA'', ''ECDSA'', ''ED25519'', ''DSA'']) line of
            Some g \<Rightarrow> g | None \<Rightarrow> ''unknown''),
       ci_auth_method =
         (if contains line ''publickey'' then ''publickey''
          else if contains line ''password'' then ''password''
          else if contains line ''keyboard-interactive'' then ''keyboard-interactive''
          else ''unknown''),
       ci_key_data =
         (case first_match key_data_patterns line of Some g \<Rightarrow> g | None \<Rightarrow> ''unknown'') \<rparr>"

text \<open>\<open>_is_ssh_connection_line\<close>: each pattern is a literal (\<open>re.escape\<close> of the user name
  and of the address), so \<open>re.search\<close> is a search for the literal.\<close>

definition is_ssh_connection_line :: "string \<Rightarrow> string \<Rightarrow> string \<Rightarrow> bool" where
  "is_ssh_connection_line line ip_address username =
     (contains line (''Accepted publickey for '' @ username @ '' from '' @ ip_address)
      \<or> contains line (''Accepted password for '' @ username @ '' from '' @ ip_address)
      \<or> contains line (''Accepted keyboard-interactive for '' @ username @ '' from '' @ ip_address))"

text \<open>\<open>lines[-max_lines:] if len(lines) > max_lines else lines\<close>, for a Python integer
  \<open>max_lines\<close>.\<close>

definition recent_lines :: "string list \<Rightarrow> int \<Rightarrow> string list" where
  "recent_lines lines max_lines =
     (if int (length lines) > max_lines then py_slice_from lines (- max_lines) else lines)"

definition loose_match :: "string \<Rightarrow> string \<Rightarrow> bool" where
  "loose_match ip_address line =
     (contains line ip_address \<and> contains line ''Accepted'' \<and> contains line ''sshd'')"

definition find_recent_ssh_connection ::
  "text_file \<Rightarrow> string \<Rightarrow> string \<Rightarrow> int \<Rightarrow> connection_info option" where
  "find_recent_ssh_connection auth_log ip_address username max_lines =
     (case auth_log of
        Missing \<Rightarrow> None
      | Unreadable \<Rightarrow> None
      | Lines lines \<Rightarrow>
          (let recent = recent_lines lines max_lines
           in case find (\<lambda>line. is_ssh_connection_line line ip_address username) (rev recent) of
                Some line \<Rightarrow> Some (parse_ssh_connection_line line)
              | None \<Rightarrow>
                  (case find (loose_match ip_address) (rev recent) of
                     Some line \<Rightarrow> Some (parse_ssh_connection_line line)
                   | None \<Rightarrow> None)))"

section \<open>The correlator: find_key_by_ip_and_user\<close>

text \<open>What the program reads: the authorized_keys file, the auth log (the parser and the
  \<open>AuthLogParser\<close> it creates both use \<open>/var/log/auth.log\<close>) and the process environment.\<close>

record world =
  authorized_keys :: text_file
  auth_log :: text_file
  environ :: "string \<Rightarrow> string option"

definition find_key_from_ssh_environment ::
  "key_cache \<Rightarrow> (string \<Rightarrow> string option) \<Rightarrow> key_info option" where
  "find_key_from_ssh_environment key_cache env =
     (let ssh_key_fingerprint = env ''SSH_KEY_FINGERPRINT''
      in if ssh_key_fingerprint \<noteq> None \<and> ssh_key_fingerprint \<noteq> Some []
         then find_key_by_fingerprint key_cache (the ssh_key_fingerprint)
         else
           (let ssh_key_comment = env ''SSH_KEY_COMMENT''
            in if ssh_key_comment \<noteq> None \<and> ssh_key_comment \<noteq> Some []
               then find (\<lambda>key_info. ki_comment key_info = the ssh_key_comment)
                      (dict_values key_cache)
               else None))"

text \<open>Method 2: the last 100 lines of the log, newest first.\<close>

fun method2_loop :: "text_file \<Rightarrow> string \<Rightarrow> string list \<Rightarrow> key_info option" where
  "method2_loop keys ip_address [] = None"
| "method2_loop keys ip_address (line # rest) =
     (if loose_match ip_address line
      then (let parsed_line = parse_ssh_connection_line line
            in if ci_key_data parsed_line \<noteq> ''unknown''
               then (case find_key_by_data keys (ci_key_data parsed_line) of
                       Some found_key \<Rightarrow> Some found_key
                     | None \<Rightarrow> method2_loop keys ip_address rest)
               else method2_loop keys ip_address rest)
      else method2_loop keys ip_address rest)"

definition step_fingerprint :: "key_cache \<Rightarrow> connection_info option \<Rightarrow> key_info option" where
  "step_fingerprint key_cache connection_info =
     (case connection_info of
        None \<Rightarrow> None
      | Some ci \<Rightarrow>
          if ci_fingerprint ci \<noteq> ''unknown''
          then find_key_by_fingerprint key_cache (ci_fingerprint ci) else None)"

definition step_key_data :: "text_file \<Rightarrow> connection_info option \<Rightarrow> key_info option" where
  "step_key_data keys connection_info =
     (case connection_info of
        None \<Rightarrow> None
      | Some ci \<Rightarrow>
          if ci_key_data ci \<noteq> ''unknown'' then find_key_by_data keys (ci_key_data ci) else None)"

text \<open>\<open>find_key_by_ip_and_user\<close>.  An auth log that exists and cannot be opened makes
  \<open>open\<close> raise in method 2; the handler of the function returns \<open>None\<close>.\<close>

definition find_key_by_ip_and_user ::
  "world \<Rightarrow> key_cache \<Rightarrow> string \<Rightarrow> string \<Rightarrow> key_info option" where
  "find_key_by_ip_and_user w key_cache ip_address username =
     (let connection_info = find_recent_ssh_connection (auth_log w) ip_address username 1000
      in case step_fingerprint key_cache connection_info of
           Some found_key \<Rightarrow> Some found_key
         | None \<Rightarrow>
             (case step_key_data (authorized_keys w) connection_info of
                Some found_key \<Rightarrow> Some found_key
              | None \<Rightarrow>
                  (case auth_log w of
                     Unreadable \<Rightarrow> None
                   | Missing \<Rightarrow> find_key_from_ssh_environment key_cache (environ w)
                   | Lines lines \<Rightarrow>
                       (case method2_loop (authorized_keys w) ip_address
                               (rev (recent_lines lines 100)) of
                          Some found_key \<Rightarrow> Some found_key
                        | None \<Rightarrow> find_key_from_ssh_environment key_cache (environ w)))))"

text \<open>The parser object after \<open>__init__\<close>, and the lookup of a session on it.\<close>

definition resolve :: "world \<Rightarrow> string \<Rightarrow> string \<Rightarrow> key_info option" where
  "resolve w ip_address username =
     find_key_by_ip_and_user w (load_authorized_keys (authorized_keys w)) ip_address username"

section \<open>Notions of the specification\<close>

text \<open>The fingerprint format of the specification: the octets of a digest as two lowercase
  hexadecimal characters each, separated by colons.\<close>

definition colon_hex :: "byte list \<Rightarrow> string" where
  "colon_hex digest = py_join '':'' (map hex2 digest)"

text \<open>The token-range rule of the specification for the options of a registry line: the
  tokens at the indexes from 2 up to, and not including, the last index that hold an \<open>=\<close>,
  each split at its first \<open>=\<close>, later assignments to a name replacing earlier ones.\<close>

definition option_tokens :: "string list \<Rightarrow> string list" where
  "option_tokens parts =
     map (\<lambda>i. parts ! i) (filter (\<lambda>i. CHR ''='' \<in> set (parts ! i)) [2..<length parts - 1])"

definition options_of :: "string list \<Rightarrow> (string, string) dict" where
  "options_of tokens =
     foldl (\<lambda>d t. dict_set d (takeWhile (\<lambda>c. c \<noteq> CHR ''='') t)
                     (tl (dropWhile (\<lambda>c. c \<noteq> CHR ''='') t))) [] tokens"

text \<open>The comment scan of the environment step: the first entry of the index, in insertion
  order, whose comment is the hint; nothing for a hint that is unset or empty.\<close>

definition comment_scan :: "key_cache \<Rightarrow> string option \<Rightarrow> key_info option" where
  "comment_scan key_cache hint =
     (case hint of
        None \<Rightarrow> None
      | Some c \<Rightarrow> if c = [] then None else find (\<lambda>k. ki_comment k = c) (map snd key_cache))"

text \<open>The last \<open>n\<close> lines of a log.\<close>

definition last_lines :: "nat \<Rightarrow> string list \<Rightarrow> string list" where
  "last_lines n lines = drop (length lines - n) lines"

text \<open>Lines of a registry file.  A line that both readers of the file pass over is blank or
  begins with \<open>#\<close>; an entry line is a line that the loader parses: not blank and not
  beginning with \<open>#\<close> once stripped, with at least two tokens.\<close>

definition passed_over :: "string \<Rightarrow> bool" where
  "passed_over l = (py_strip l = [] \<or> prefix ''#'' l)"

definition entry_line :: "string \<Rightarrow> bool" where
  "entry_line l =
     (py_strip l \<noteq> [] \<and> \<not> prefix ''#'' (py_strip l) \<and> 2 \<le> length (py_split (py_strip l)))"

definition data_token :: "string \<Rightarrow> string" where
  "data_token l = py_split (py_strip l) ! 1"

definition undecodable_entry :: "string \<Rightarrow> bool" where
  "undecodable_entry l = (entry_line l \<and> isl (b64decode (data_token l)))"

text \<open>The entry that the loader stores for the entry line \<open>l\<close> read as line \<open>n\<close>.\<close>

definition entry_of :: "nat \<Rightarrow> string \<Rightarrow> key_info" where
  "entry_of n l = (the (parse_authorized_key_line (py_strip l)))\<lparr>ki_line_number := Some n\<rparr>"

subsection \<open>Concrete inputs\<close>

definition demo_key :: key_info where
  "demo_key =
     \<lparr> ki_type = ''ssh-rsa'', ki_data = ''AAAA'', ki_fingerprint = ''aa:bb'',
       ki_comment = ''laptop'', ki_options = [], ki_full_line = ''ssh-rsa AAAA laptop'',
       ki_line_number = Some 1 \<rparr>"

definition demo_env :: "string \<Rightarrow> string option" where
  "demo_env =
     (\<lambda>v. None)(''SSH_KEY_FINGERPRINT'' := Some ''cc:dd'', ''SSH_KEY_COMMENT'' := Some ''laptop'')"

definition no_evidence_world :: world where
  "no_evidence_world =
     \<lparr> authorized_keys = Lines [''# no keys yet''],
       auth_log = Lines [''sshd[7]: Failed password for root from 10.0.0.9 port 22 ssh2''],
       environ = (\<lambda>v. None) \<rparr>"

text \<open>The end-to-end scenario of the specification: one registry entry, and a log whose
  matching line carries the key data of that entry and no fingerprint.\<close>

definition scenario_key_line :: string where
  "scenario_key_line =
     ''ssh-rsa AAAAB3NzaC1yc2EAAAADAQABAAABAQC7vbqajDhA8sXk9F0eXAMPLEKE alice@laptop'' @ [CHR 0x0A]"

definition scenario_log_line :: string where
  "scenario_log_line =
     ''Jan  1 00:00:00 host sshd[123]: Accepted publickey for alice from 10.0.0.5 port 51234 ssh2: key AAAAB3NzaC1yc2EAAAADAQABAAABAQC7vbqajDhA8sXk9F0eXAMPLEKE''
       @ [CHR 0x0A]"

definition scenario_world :: world where
  "scenario_world =
     \<lparr> authorized_keys = Lines [''# team keys'' @ [CHR 0x0A], scenario_key_line],
       auth_log =
         Lines [''Jan  1 00:00:00 host sshd[99]: Failed password for root from 10.0.0.9 port 22 ssh2''
                  @ [CHR 0x0A],
                scenario_log_line],
       environ = (\<lambda>v. None) \<rparr>"

text \<open>A registry file with a key that was commented out behind leading blanks, followed by
  two entries with the same key data.\<close>

definition old_line :: string where
  "old_line = '' #ssh-rsa AAAA old'' @ [CHR 0x0A]"

definition first_line :: string where
  "first_line = ''ssh-rsa AAAA first'' @ [CHR 0x0A]"

definition second_line :: string where
  "second_line = ''ssh-rsa AAAA second'' @ [CHR 0x0A]"

definition precedence_file :: text_file where
  "precedence_file = Lines [old_line, first_line, second_line]"

text \<open>A registry file of two lines, neither beginning with \<open>#\<close> as read, the later one
  being the commented-out key.\<close>

definition skipped_later_file :: text_file where
  "skipped_later_file = Lines [first_line, old_line]"

text \<open>The scenario with one more registry line before the entry: the same key, revoked by
  commenting it out behind a leading blank.\<close>

definition revoked_line :: string where
  "revoked_line =
     '' #ssh-rsa AAAAB3NzaC1yc2EAAAADAQABAAABAQC7vbqajDhA8sXk9F0eXAMPLEKE revoked'' @ [CHR 0x0A]"

definition revoked_world :: world where
  "revoked_world = scenario_world\<lparr>authorized_keys := Lines [revoked_line, scenario_key_line]\<rparr>"

section \<open>Facts about the primitives\<close>

lemma contains_sublist: "contains hay needle = sublist needle hay"
  by (induction hay) (auto simp: sublist_Cons_right)

lemma method2_loop_no_entry:
  "(\<And>d. find_key_by_data keys d = None) \<Longrightarrow> method2_loop keys ip ls = None"
  by (induction ls) (simp_all add: Let_def)

subsection \<open>Facts about fingerprints\<close>

lemma length_md5: "length (md5 bs) = 16"
  by (simp add: md5_def bytes_of_u32_def Let_def split: prod.splits)

lemma length_hex2: "length (hex2 b) = 2"
  by (simp add: hex2_def)

lemma length_hexdigest: "length (hexdigest d) = 2 * length d"
  by (induction d) (simp_all add: hexdigest_def length_hex2)

lemma chunk_concat_pairs:
  assumes "\<forall>x \<in> set xs. length x = 2" and "k < length xs"
  shows "take 2 (drop (2 * k) (concat xs)) = xs ! k"
  using assms
proof (induction xs arbitrary: k)
  case Nil
  then show ?case by simp
next
  case (Cons x xs)
  show ?case
  proof (cases k)
    case 0
    with Cons.prems show ?thesis by simp
  next
    case (Suc j)
    with Cons.prems have "take 2 (drop (2 * j) (concat xs)) = xs ! j"
      by (intro Cons.IH) auto
    with Suc Cons.prems show ?thesis by simp
  qed
qed

lemma pairs_of_hexdigest:
  "map (\<lambda>i. take 2 (drop i (hexdigest d))) (map (\<lambda>k. 2 * k) [0..<(length (hexdigest d) + 1) div 2])
     = map hex2 d"
proof -
  have n: "(length (hexdigest d) + 1) div 2 = length d"
    by (simp add: length_hexdigest)
  show ?thesis
    unfolding n
    by (rule nth_equalityI)
       (simp_all add: hexdigest_def chunk_concat_pairs length_hex2)
qed

lemma generate_fingerprint_decoded:
  "b64decode key_data = Inr key_bytes \<Longrightarrow>
     generate_fingerprint key_type key_data = colon_hex (md5 key_bytes)"
  unfolding generate_fingerprint_def colon_hex_def Let_def
  by (simp only: pairs_of_hexdigest sum.case)

lemma length_py_join_pairs:
  "\<forall>x \<in> set xs. length x = 2 \<Longrightarrow> xs \<noteq> [] \<Longrightarrow> length (py_join '':'' xs) = 3 * length xs - 1"
  by (induction "'':''" xs rule: py_join.induct) auto

lemma length_colon_hex: "d \<noteq> [] \<Longrightarrow> length (colon_hex d) = 3 * length d - 1"
  by (simp add: colon_hex_def length_py_join_pairs length_hex2)

lemma hex_digit_lower: "n < 16 \<Longrightarrow> hex_digit n \<in> set ''0123456789abcdef''"
  unfolding hex_digit_def by (rule nth_mem) simp

lemma set_hex2: "set (hex2 b) \<subseteq> set ''0123456789abcdef''"
proof -
  have "unat b < 256" using unsigned_less [of b, where 'a = nat] by simp
  then have "unat b div 16 < 16" by simp
  then show ?thesis
    using hex_digit_lower [of "unat b div 16"] hex_digit_lower [of "unat b mod 16"]
    by (simp add: hex2_def)
qed

lemma length_generate_fingerprint:
  assumes "b64decode key_data = Inr key_bytes"
  shows "length (generate_fingerprint key_type key_data) = 47"
proof -
  have "md5 key_bytes \<noteq> []"
    using length_md5 [of key_bytes] by auto
  then have "length (colon_hex (md5 key_bytes)) = 3 * 16 - 1"
    by (simp add: length_colon_hex length_md5)
  then show ?thesis
    by (simp add: generate_fingerprint_decoded [OF assms])
qed

lemma fingerprint_not_unknown:
  "b64decode key_data = Inr key_bytes \<Longrightarrow> generate_fingerprint key_type key_data \<noteq> ''unknown''"
  using length_generate_fingerprint [of key_data key_bytes key_type] by auto

subsection \<open>Facts about the parsing of a registry line\<close>

lemma options_loop_foldl:
  "options_loop d ps =
     foldl (\<lambda>d t. dict_set d (takeWhile (\<lambda>c. c \<noteq> CHR ''='') t)
                     (tl (dropWhile (\<lambda>c. c \<noteq> CHR ''='') t))) d
       (filter (\<lambda>p. CHR ''='' \<in> set p) ps)"
  by (induction ps arbitrary: d) (simp_all add: split_eq_def drop_Suc)

lemma butlast_drop2_indices:
  "butlast (drop 2 parts) = map (\<lambda>i. parts ! i) [2..<length parts - 1]"
  by (rule nth_equalityI) (simp_all add: nth_butlast)

lemma options_loop_token_range:
  "options_loop [] (butlast (drop 2 parts)) = options_of (option_tokens parts)"
  by (simp add: options_loop_foldl butlast_drop2_indices options_of_def option_tokens_def
      filter_map comp_def)

lemma option_tokens_short: "length parts \<le> 3 \<Longrightarrow> option_tokens parts = []"
  by (simp add: option_tokens_def)

lemma comment_is_option_token:
  assumes "3 < length parts" and "CHR ''='' \<in> set (parts ! 2)"
  shows "parts ! 2 \<in> set (option_tokens parts)"
proof -
  have "2 \<in> set (filter (\<lambda>i. CHR ''='' \<in> set (parts ! i)) [2..<length parts - 1])"
    using assms by simp
  then show ?thesis
    unfolding option_tokens_def by (metis (no_types, lifting) image_eqI set_map)
qed

lemma split_option_line: "py_split ''ssh-rsa AAAA SSH_USER=alice comment-text''
     = [''ssh-rsa'', ''AAAA'', ''SSH_USER=alice'', ''comment-text'']"
  by (simp add: py_split_def py_isspace_def)

lemma split_plain_line: "py_split ''ssh-rsa AAAA laptop'' = [''ssh-rsa'', ''AAAA'', ''laptop'']"
  by (simp add: py_split_def py_isspace_def)

subsection \<open>Facts about the loader and the index\<close>

lemma parse_entry_line:
  assumes "entry_line l"
  shows "parse_authorized_key_line (py_strip l) = Some ((entry_of n l)\<lparr>ki_line_number := None\<rparr>)"
    and "ki_fingerprint (entry_of n l)
           = generate_fingerprint (py_split (py_strip l) ! 0) (data_token l)"
    and "ki_data (entry_of n l) = data_token l"
  using assms
  by (simp_all add: entry_line_def entry_of_def parse_authorized_key_line_def Let_def
      data_token_def)

lemma parse_None_iff: "parse_authorized_key_line s = None \<longleftrightarrow> length (py_split s) < 2"
  by (simp add: parse_authorized_key_line_def Let_def)

lemma load_loop_entry:
  "entry_line l \<Longrightarrow>
     load_loop cache n (l # ls)
       = load_loop (dict_set cache (ki_fingerprint (entry_of n l)) (entry_of n l)) (n + 1) ls"
  by (auto simp: entry_line_def entry_of_def Let_def parse_None_iff split: option.splits)

lemma parse_Some_length:
  "parse_authorized_key_line s = Some k \<Longrightarrow> 2 \<le> length (py_split s)"
  using parse_None_iff [of s] by auto

lemma load_loop_skip:
  "\<not> entry_line l \<Longrightarrow> load_loop cache n (l # ls) = load_loop cache (n + 1) ls"
  by (auto simp: entry_line_def Let_def dest: parse_Some_length split: option.splits)

lemma load_loop_append:
  "load_loop cache n (xs @ ys) = load_loop (load_loop cache n xs) (n + length xs) ys"
proof (induction xs arbitrary: cache n)
  case Nil
  then show ?case by simp
next
  case (Cons x xs)
  show ?case
  proof (cases "entry_line x")
    case True
    then show ?thesis
      using Cons.IH by (simp add: load_loop_entry del: load_loop.simps)
  next
    case False
    then show ?thesis
      using Cons.IH by (simp add: load_loop_skip del: load_loop.simps)
  qed
qed

lemma undecodable_fingerprint:
  "undecodable_entry l \<Longrightarrow> ki_fingerprint (entry_of n l) = ''unknown''"
  by (auto simp: undecodable_entry_def parse_entry_line(2) generate_fingerprint_def isl_def)

lemma decodable_fingerprint:
  assumes "entry_line l" and "\<not> undecodable_entry l"
  shows "ki_fingerprint (entry_of n l) \<noteq> ''unknown''"
proof -
  obtain bs where "b64decode (data_token l) = Inr bs"
    using assms by (cases "b64decode (data_token l)") (auto simp: undecodable_entry_def)
  then show ?thesis
    using assms(1) by (simp add: parse_entry_line(2) fingerprint_not_unknown)
qed

lemma dict_get_set: "dict_get (dict_set d k v) k' = (if k' = k then Some v else dict_get d k')"
  by (simp add: dict_get_def dict_set_def update_conv')

lemma load_loop_keeps_unknown:
  "\<forall>x \<in> set ls. \<not> undecodable_entry x \<Longrightarrow>
     dict_get (load_loop cache n ls) ''unknown'' = dict_get cache ''unknown''"
proof (induction ls arbitrary: cache n)
  case Nil
  then show ?case by simp
next
  case (Cons x xs)
  show ?case
  proof (cases "entry_line x")
    case True
    with Cons.prems have "ki_fingerprint (entry_of n x) \<noteq> ''unknown''"
      by (simp add: decodable_fingerprint)
    with True Cons show ?thesis
      by (simp add: load_loop_entry dict_get_set del: load_loop.simps)
  next
    case False
    with Cons show ?thesis
      by (simp add: load_loop_skip del: load_loop.simps)
  qed
qed

lemma load_loop_distinct:
  "distinct (map fst cache) \<Longrightarrow> distinct (map fst (load_loop cache n ls))"
proof (induction ls arbitrary: cache n)
  case Nil
  then show ?case by simp
next
  case (Cons x xs)
  show ?case
  proof (cases "entry_line x")
    case True
    with Cons show ?thesis
      by (simp add: load_loop_entry dict_set_def distinct_update del: load_loop.simps)
  next
    case False
    with Cons show ?thesis
      by (simp add: load_loop_skip del: load_loop.simps)
  qed
qed

lemma one_slot_per_key:
  "distinct (map fst d) \<Longrightarrow> dict_get d k = Some v \<Longrightarrow> length (filter (\<lambda>p. fst p = k) d) = 1"
proof (induction d)
  case Nil
  then show ?case by (simp add: dict_get_def)
next
  case (Cons p d)
  show ?case
  proof (cases "fst p = k")
    case True
    with Cons.prems have "k \<notin> fst ` set d" by auto
    then have "filter (\<lambda>p. fst p = k) d = []"
      by (auto simp: filter_empty_conv)
    with True show ?thesis by simp
  next
    case False
    with Cons show ?thesis by (simp add: dict_get_def)
  qed
qed

subsection \<open>Facts about the two readers of the registry and the log window\<close>

lemma find_append_None:
  "\<forall>x \<in> set xs. \<not> P x \<Longrightarrow> find P (xs @ ys) = find P ys"
  by (induction xs) simp_all

lemma strip_keeps_hash: "prefix ''#'' l \<Longrightarrow> prefix ''#'' (py_strip l)"
proof -
  assume "prefix ''#'' l"
  then obtain r where l: "l = CHR ''#'' # r"
    by (cases l) auto
  have ns: "\<not> py_isspace CHR ''#''"
    by (simp add: py_isspace_def)
  show ?thesis
    using ns by (simp add: l py_strip_def dropWhile_append)
qed

lemma passed_over_not_entry: "passed_over x \<Longrightarrow> \<not> entry_line x"
  using strip_keeps_hash [of x] by (auto simp: passed_over_def entry_line_def)

lemma entry_line_no_hash: "entry_line l \<Longrightarrow> \<not> prefix ''#'' l"
  using strip_keeps_hash [of l] by (auto simp: entry_line_def)

lemma load_loop_passed_over:
  "\<forall>x \<in> set ls. passed_over x \<Longrightarrow> load_loop cache n ls = cache"
proof (induction ls arbitrary: n)
  case Nil
  then show ?case by simp
next
  case (Cons x xs)
  then show ?case
    by (simp add: load_loop_skip passed_over_not_entry del: load_loop.simps)
qed

lemma find_key_by_data_loop_passed_over:
  "\<forall>x \<in> set ls. passed_over x \<Longrightarrow>
     find_key_by_data_loop (ls @ rest) d = find_key_by_data_loop rest d"
  by (induction ls) (auto simp: passed_over_def)

lemma find_key_by_data_loop_entry:
  "entry_line l \<Longrightarrow> data_token l = d \<Longrightarrow>
     find_key_by_data_loop (l # rest) d = parse_authorized_key_line (py_strip l)"
  using entry_line_no_hash [of l] by (simp add: entry_line_def data_token_def)

lemma recent_lines_positive:
  "1 \<le> max_lines \<Longrightarrow> recent_lines lines max_lines = last_lines (nat max_lines) lines"
  by (auto simp: recent_lines_def py_slice_from_def last_lines_def nat_diff_distrib')

lemma find_recent_newest_match:
  assumes "is_ssh_connection_line m ip username"
    and "\<forall>x \<in> set newer. \<not> is_ssh_connection_line x ip username"
    and "length newer < 1000"
  shows "find_recent_ssh_connection (Lines (older @ m # newer)) ip username 1000
           = Some (parse_ssh_connection_line m)"
proof -
  let ?k = "length (older @ m # newer) - 1000"
  have k: "?k \<le> length older"
    using assms(3) by simp
  have "recent_lines (older @ m # newer) 1000 = drop ?k older @ m # newer"
    using k by (simp add: recent_lines_positive last_lines_def)
  then have r: "rev (recent_lines (older @ m # newer) 1000)
      = rev newer @ m # rev (drop ?k older)"
    by simp
  have "find (\<lambda>line. is_ssh_connection_line line ip username)
          (rev newer @ m # rev (drop ?k older)) = Some m"
    using assms(1,2) by (simp add: find_append_None)
  then show ?thesis
    unfolding find_recent_ssh_connection_def by (simp add: r Let_def)
qed

lemma scenario_key_line_strip:
  "py_strip scenario_key_line
     = ''ssh-rsa AAAAB3NzaC1yc2EAAAADAQABAAABAQC7vbqajDhA8sXk9F0eXAMPLEKE alice@laptop''"
  by (simp add: scenario_key_line_def py_strip_def py_isspace_def)

lemma scenario_key_line_split:
  "py_split ''ssh-rsa AAAAB3NzaC1yc2EAAAADAQABAAABAQC7vbqajDhA8sXk9F0eXAMPLEKE alice@laptop''
     = [''ssh-rsa'', ''AAAAB3NzaC1yc2EAAAADAQABAAABAQC7vbqajDhA8sXk9F0eXAMPLEKE'', ''alice@laptop'']"
  by (simp add: py_split_def py_isspace_def)

lemma scenario_no_fingerprint: "first_match fingerprint_patterns scenario_log_line = None"
  by (simp add: scenario_log_line_def fingerprint_patterns_def match_lit_class_def)

lemma scenario_key_data:
  "first_match key_data_patterns scenario_log_line
     = Some ''AAAAB3NzaC1yc2EAAAADAQABAAABAQC7vbqajDhA8sXk9F0eXAMPLEKE''"
  by (simp add: scenario_log_line_def key_data_patterns_def match_lit_class_def cls_base64_def
      in_range_def)

subsection \<open>Facts about registry precedence and the log window\<close>

lemma generate_fingerprint_type: "generate_fingerprint t d = generate_fingerprint t' d"
  by (simp add: generate_fingerprint_def)

lemma entry_fingerprint:
  "entry_line l \<Longrightarrow> ki_fingerprint (entry_of n l) = generate_fingerprint t (data_token l)"
  using generate_fingerprint_type by (simp add: parse_entry_line(2))

lemma registry_precedence_plain_comments:
  assumes others: "\<forall>x \<in> set (pre @ mid @ post). passed_over x"
    and e1: "entry_line l1" and e2: "entry_line l2"
    and d1: "data_token l1 = d" and d2: "data_token l2 = d"
  shows "find_key_by_fingerprint (load_authorized_keys (Lines (pre @ l1 # mid @ l2 # post)))
           (generate_fingerprint t d)
         = Some (entry_of (length pre + length mid + 2) l2)
     \<and> find_key_by_data (Lines (pre @ l1 # mid @ l2 # post)) d
         = parse_authorized_key_line (py_strip l1)
     \<and> parse_authorized_key_line (py_strip l1) \<noteq> None"
proof -
  let ?n1 = "length pre + 1" and ?n2 = "length pre + length mid + 2"
  have f1: "ki_fingerprint (entry_of ?n1 l1) = generate_fingerprint t d"
    using entry_fingerprint [OF e1] d1 by simp
  have f2: "ki_fingerprint (entry_of ?n2 l2) = generate_fingerprint t d"
    using entry_fingerprint [OF e2] d2 by simp
  have p: "\<forall>x \<in> set pre. passed_over x" "\<forall>x \<in> set mid. passed_over x"
    "\<forall>x \<in> set post. passed_over x"
    using others by auto
  have a: "load_loop [] 1 (pre @ l1 # mid @ l2 # post)
      = load_loop (dict_set [] (generate_fingerprint t d) (entry_of ?n1 l1)) (?n1 + 1)
          (mid @ l2 # post)"
    using p(1) e1 f1
    by (simp add: load_loop_append load_loop_passed_over load_loop_entry add.commute
        del: load_loop.simps)
  have b: "load_loop c (?n1 + 1) (mid @ l2 # post)
      = dict_set c (generate_fingerprint t d) (entry_of ?n2 l2)" for c
    using p(2,3) e2 f2
    by (simp add: load_loop_append load_loop_passed_over load_loop_entry add.commute
        add.left_commute del: load_loop.simps)
  have "load_authorized_keys (Lines (pre @ l1 # mid @ l2 # post))
      = dict_set (dict_set [] (generate_fingerprint t d) (entry_of ?n1 l1))
          (generate_fingerprint t d) (entry_of ?n2 l2)"
    by (simp only: load_authorized_keys_def text_file.simps a b)
  also have "\<dots> = [(generate_fingerprint t d, entry_of ?n2 l2)]"
    by (simp add: dict_set_def)
  finally have idx: "find_key_by_fingerprint (load_authorized_keys (Lines (pre @ l1 # mid @ l2 # post)))
           (generate_fingerprint t d) = Some (entry_of ?n2 l2)"
    by (simp add: find_key_by_fingerprint_def dict_get_def)
  have scan: "find_key_by_data (Lines (pre @ l1 # mid @ l2 # post)) d
      = parse_authorized_key_line (py_strip l1)"
    using p(1) e1 d1
    by (simp add: find_key_by_data_def find_key_by_data_loop_passed_over
        find_key_by_data_loop_entry del: find_key_by_data_loop.simps)
  show ?thesis
    using idx scan parse_entry_line(1) [OF e1, of 0] by simp
qed

lemma window_bound_positive:
  assumes "1 \<le> max_lines"
    and "last_lines (nat max_lines) a = last_lines (nat max_lines) b"
  shows "find_recent_ssh_connection (Lines a) ip username max_lines
       = find_recent_ssh_connection (Lines b) ip username max_lines"
  using assms by (simp add: find_recent_ssh_connection_def recent_lines_positive)

lemma strip_old: "py_strip old_line = ''#ssh-rsa AAAA old''"
  by (simp add: old_line_def py_strip_def py_isspace_def)

lemma strip_first: "py_strip first_line = ''ssh-rsa AAAA first''"
  by (simp add: first_line_def py_strip_def py_isspace_def)

lemma strip_second: "py_strip second_line = ''ssh-rsa AAAA second''"
  by (simp add: second_line_def py_strip_def py_isspace_def)

lemma split_old: "py_split ''#ssh-rsa AAAA old'' = [''#ssh-rsa'', ''AAAA'', ''old'']"
  by (simp add: py_split_def py_isspace_def)

lemma split_first: "py_split ''ssh-rsa AAAA first'' = [''ssh-rsa'', ''AAAA'', ''first'']"
  by (simp add: py_split_def py_isspace_def)

lemma split_second: "py_split ''ssh-rsa AAAA second'' = [''ssh-rsa'', ''AAAA'', ''second'']"
  by (simp add: py_split_def py_isspace_def)

subsection \<open>The fallback to key data, for a registry with plain comment lines\<close>

text \<open>
  The registry file holds one entry line \<open>l\<close> whose key data is at least 50 characters
  long, every other line being blank or beginning with \<open>#\<close>.  The auth log holds, within
  its last 1000 lines, the line \<open>m\<close> with \<open>Accepted publickey for <username> from <ip>\<close>,
  the only line matching that address and user; no fingerprint pattern matches \<open>m\<close>, and
  the key-data patterns extract the key data of \<open>l\<close> from it.  Then the fingerprint step
  gives nothing, the key-data step gives the entry parsed from \<open>l\<close>, and that is what
  \<open>find_key_by_ip_and_user\<close> returns: the one entry of the loaded index, without the line
  number that only the loader adds.  The second lemma is the scenario of the specification.
\<close>

lemma fallback_to_key_data_plain_comments:
  assumes reg: "authorized_keys w = Lines (pre @ l # post)"
    and others: "\<forall>x \<in> set (pre @ post). passed_over x"
    and entry: "entry_line l"
    and run: "50 \<le> length (data_token l)"
    and log: "auth_log w = Lines (older @ m # newer)"
    and window: "length newer < 1000"
    and only: "\<forall>x \<in> set (older @ newer). \<not> is_ssh_connection_line x ip username"
    and line: "contains m (''Accepted publickey for '' @ username @ '' from '' @ ip)"
    and nofp: "first_match fingerprint_patterns m = None"
    and key: "first_match key_data_patterns m = Some (data_token l)"
  shows "resolve w ip username = Some ((entry_of (length pre + 1) l)\<lparr>ki_line_number := None\<rparr>)
     \<and> load_authorized_keys (authorized_keys w)
         = [(ki_fingerprint (entry_of (length pre + 1) l), entry_of (length pre + 1) l)]
     \<and> ki_data (entry_of (length pre + 1) l) = data_token l
     \<and> find_recent_ssh_connection (auth_log w) ip username 1000
         = Some (parse_ssh_connection_line m)
     \<and> ci_fingerprint (parse_ssh_connection_line m) = ''unknown''
     \<and> step_fingerprint (load_authorized_keys (authorized_keys w))
          (find_recent_ssh_connection (auth_log w) ip username 1000) = None
     \<and> step_key_data (authorized_keys w)
          (find_recent_ssh_connection (auth_log w) ip username 1000)
         = Some ((entry_of (length pre + 1) l)\<lparr>ki_line_number := None\<rparr>)"
proof -
  let ?e = "entry_of (length pre + 1) l"
  let ?conn = "find_recent_ssh_connection (auth_log w) ip username 1000"
  have conn: "?conn = Some (parse_ssh_connection_line m)"
    unfolding log
    using line only window
    by (intro find_recent_newest_match) (simp_all add: is_ssh_connection_line_def)
  have fp: "ci_fingerprint (parse_ssh_connection_line m) = ''unknown''"
    using nofp by (simp add: parse_ssh_connection_line_def)
  have kd: "ci_key_data (parse_ssh_connection_line m) = data_token l"
    using key by (simp add: parse_ssh_connection_line_def)
  have nu: "data_token l \<noteq> ''unknown''"
    using run by auto
  have s1: "step_fingerprint c ?conn = None" for c
    by (simp add: conn step_fingerprint_def fp)
  have "find_key_by_data_loop (pre @ l # post) (data_token l)
      = parse_authorized_key_line (py_strip l)"
    using others entry
    by (simp add: find_key_by_data_loop_passed_over find_key_by_data_loop_entry
        del: find_key_by_data_loop.simps)
  then have s2: "step_key_data (authorized_keys w) ?conn = Some (?e\<lparr>ki_line_number := None\<rparr>)"
    using nu parse_entry_line(1) [OF entry, of "length pre + 1"]
    by (simp add: conn step_key_data_def kd reg find_key_by_data_def)
  have idx: "load_authorized_keys (authorized_keys w) = [(ki_fingerprint ?e, ?e)]"
    using others entry
    by (simp add: reg load_authorized_keys_def load_loop_append load_loop_passed_over
        load_loop_entry dict_set_def add.commute del: load_loop.simps)
  have res: "resolve w ip username = Some (?e\<lparr>ki_line_number := None\<rparr>)"
    by (simp add: resolve_def find_key_by_ip_and_user_def s1 s2)
  show ?thesis
    using res idx s1 s2 conn fp parse_entry_line(3) [OF entry] by simp
qed

lemma fallback_scenario_plain_comments:
  "entry_line scenario_key_line
   \<and> data_token scenario_key_line = ''AAAAB3NzaC1yc2EAAAADAQABAAABAQC7vbqajDhA8sXk9F0eXAMPLEKE''
   \<and> first_match fingerprint_patterns scenario_log_line = None
   \<and> first_match key_data_patterns scenario_log_line = Some (data_token scenario_key_line)
   \<and> resolve scenario_world ''10.0.0.5'' ''alice''
       = Some ((entry_of 2 scenario_key_line)\<lparr>ki_line_number := None\<rparr>)
   \<and> ki_comment (entry_of 2 scenario_key_line) = ''alice@laptop''"
proof -
  have e: "entry_line scenario_key_line"
    by (simp add: entry_line_def scenario_key_line_strip scenario_key_line_split)
  have d: "data_token scenario_key_line
      = ''AAAAB3NzaC1yc2EAAAADAQABAAABAQC7vbqajDhA8sXk9F0eXAMPLEKE''"
    by (simp add: data_token_def scenario_key_line_strip scenario_key_line_split)
  have reg: "authorized_keys scenario_world
      = Lines ([''# team keys'' @ [CHR 0x0A]] @ scenario_key_line # [])"
    by (simp add: scenario_world_def)
  have others: "\<forall>x \<in> set ([''# team keys'' @ [CHR 0x0A]] @ []). passed_over x"
    by (simp add: passed_over_def)
  have run: "50 \<le> length (data_token scenario_key_line)"
    by (simp add: d)
  have log: "auth_log scenario_world
      = Lines ([''Jan  1 00:00:00 host sshd[99]: Failed password for root from 10.0.0.9 port 22 ssh2''
                  @ [CHR 0x0A]] @ scenario_log_line # [])"
    by (simp add: scenario_world_def)
  have only: "\<forall>x \<in> set ([''Jan  1 00:00:00 host sshd[99]: Failed password for root from 10.0.0.9 port 22 ssh2''
                  @ [CHR 0x0A]] @ []). \<not> is_ssh_connection_line x ''10.0.0.5'' ''alice''"
    by (simp add: is_ssh_connection_line_def)
  have line: "contains scenario_log_line
      (''Accepted publickey for '' @ ''alice'' @ '' from '' @ ''10.0.0.5'')"
    by (simp add: scenario_log_line_def)
  have key: "first_match key_data_patterns scenario_log_line = Some (data_token scenario_key_line)"
    by (simp add: scenario_key_data d)
  have c: "ki_comment (entry_of 2 scenario_key_line) = ''alice@laptop''"
    by (simp add: entry_of_def parse_authorized_key_line_def Let_def scenario_key_line_strip
        scenario_key_line_split)
  show ?thesis
    using fallback_to_key_data_plain_comments
        [OF reg others e run log _ only line scenario_no_fingerprint key]
      e d scenario_no_fingerprint key c
    by (simp add: numeral_2_eq_2)
qed

section \<open>The claims\<close>

text \<open>
  C1 (fallback ordering of the correlator).  The order of the steps is as stated: when the
  newest line matching the address and the user lies in the last 1000 lines of the log and
  no fingerprint pattern matches it, the fingerprint step gives nothing and the key-data
  step looks the extracted key data up in the registry file; when every line of the file
  but the one entry is blank or begins with \<open>#\<close>, the entry parsed from that line is
  returned (lemma \<open>fallback_to_key_data_plain_comments\<close>).  The key-data step is
  \<open>_find_key_by_data\<close>, though, which tests for \<open>#\<close> on the line as read, while the
  loader strips the line first.  In \<open>revoked_world\<close> the registry holds exactly one entry,
  that of \<open>alice@laptop\<close>, after a line that comments the same key out behind a leading
  blank; the log is that of the scenario, with no fingerprint and the key data of the
  entry.  The fingerprint step gives nothing, and the key-data step returns the line that
  was commented out (type \<open>#ssh-rsa\<close>, comment \<open>revoked\<close>), not the entry of the registry.
\<close>

theorem resolve_returns_commented_line:
  "\<not> entry_line revoked_line \<and> entry_line scenario_key_line
   \<and> data_token scenario_key_line = ''AAAAB3NzaC1yc2EAAAADAQABAAABAQC7vbqajDhA8sXk9F0eXAMPLEKE''
   \<and> length (load_authorized_keys (authorized_keys revoked_world)) = 1
   \<and> map_option ki_comment
        (find_key_by_fingerprint (load_authorized_keys (authorized_keys revoked_world))
           (generate_fingerprint ''ssh-rsa''
              ''AAAAB3NzaC1yc2EAAAADAQABAAABAQC7vbqajDhA8sXk9F0eXAMPLEKE''))
       = Some ''alice@laptop''
   \<and> find_recent_ssh_connection (auth_log revoked_world) ''10.0.0.5'' ''alice'' 1000
       = Some (parse_ssh_connection_line scenario_log_line)
   \<and> ci_fingerprint (parse_ssh_connection_line scenario_log_line) = ''unknown''
   \<and> ci_key_data (parse_ssh_connection_line scenario_log_line)
       = ''AAAAB3NzaC1yc2EAAAADAQABAAABAQC7vbqajDhA8sXk9F0eXAMPLEKE''
   \<and> step_fingerprint (load_authorized_keys (authorized_keys revoked_world))
        (find_recent_ssh_connection (auth_log revoked_world) ''10.0.0.5'' ''alice'' 1000) = None
   \<and> map_option ki_type (resolve revoked_world ''10.0.0.5'' ''alice'') = Some ''#ssh-rsa''
   \<and> map_option ki_comment (resolve revoked_world ''10.0.0.5'' ''alice'') = Some ''revoked''"
proof -
  let ?d = "''AAAAB3NzaC1yc2EAAAADAQABAAABAQC7vbqajDhA8sXk9F0eXAMPLEKE''"
  have st: "py_strip revoked_line
      = ''#ssh-rsa AAAAB3NzaC1yc2EAAAADAQABAAABAQC7vbqajDhA8sXk9F0eXAMPLEKE revoked''"
    by (simp add: revoked_line_def py_strip_def py_isspace_def)
  have sp: "py_split ''#ssh-rsa AAAAB3NzaC1yc2EAAAADAQABAAABAQC7vbqajDhA8sXk9F0eXAMPLEKE revoked''
      = [''#ssh-rsa'', ?d, ''revoked'']"
    by (simp add: py_split_def py_isspace_def)
  have e0: "\<not> entry_line revoked_line"
    by (simp add: entry_line_def st)
  have e1: "entry_line scenario_key_line"
    by (simp add: entry_line_def scenario_key_line_strip scenario_key_line_split)
  have d1: "data_token scenario_key_line = ?d"
    by (simp add: data_token_def scenario_key_line_strip scenario_key_line_split)
  have f1: "ki_fingerprint (entry_of n scenario_key_line) = generate_fingerprint ''ssh-rsa'' ?d"
    for n
    using entry_fingerprint [OF e1] d1 by simp
  have c1: "ki_comment (entry_of n scenario_key_line) = ''alice@laptop''" for n
    by (simp add: entry_of_def parse_authorized_key_line_def Let_def scenario_key_line_strip
        scenario_key_line_split)
  have keys: "authorized_keys revoked_world = Lines [revoked_line, scenario_key_line]"
    by (simp add: revoked_world_def)
  have idx: "load_authorized_keys (authorized_keys revoked_world)
      = [(generate_fingerprint ''ssh-rsa'' ?d, entry_of 2 scenario_key_line)]"
    using e0 e1
    by (simp add: keys load_authorized_keys_def load_loop_skip load_loop_entry f1 dict_set_def
        numeral_2_eq_2 del: load_loop.simps(2))
  have m: "is_ssh_connection_line scenario_log_line ''10.0.0.5'' ''alice''"
    by (simp add: is_ssh_connection_line_def scenario_log_line_def)
  have log: "auth_log revoked_world
      = Lines ([''Jan  1 00:00:00 host sshd[99]: Failed password for root from 10.0.0.9 port 22 ssh2''
                  @ [CHR 0x0A]] @ scenario_log_line # [])"
    by (simp add: revoked_world_def scenario_world_def)
  have conn: "find_recent_ssh_connection (auth_log revoked_world) ''10.0.0.5'' ''alice'' 1000
      = Some (parse_ssh_connection_line scenario_log_line)"
    unfolding log using m by (intro find_recent_newest_match) simp_all
  have fp: "ci_fingerprint (parse_ssh_connection_line scenario_log_line) = ''unknown''"
    by (simp add: parse_ssh_connection_line_def scenario_no_fingerprint)
  have kd: "ci_key_data (parse_ssh_connection_line scenario_log_line) = ?d"
    by (simp add: parse_ssh_connection_line_def scenario_key_data)
  have s1: "step_fingerprint c (Some (parse_ssh_connection_line scenario_log_line)) = None" for c
    by (simp add: step_fingerprint_def fp)
  have nh: "\<not> prefix ''#'' revoked_line"
    by (simp add: revoked_line_def)
  have scan: "find_key_by_data (Lines [revoked_line, scenario_key_line]) ?d
      = parse_authorized_key_line
          ''#ssh-rsa AAAAB3NzaC1yc2EAAAADAQABAAABAQC7vbqajDhA8sXk9F0eXAMPLEKE revoked''"
    using nh by (simp add: find_key_by_data_def st sp)
  have p: "parse_authorized_key_line
        ''#ssh-rsa AAAAB3NzaC1yc2EAAAADAQABAAABAQC7vbqajDhA8sXk9F0eXAMPLEKE revoked''
      = Some \<lparr> ki_type = ''#ssh-rsa'', ki_data = ?d,
                 ki_fingerprint = generate_fingerprint ''#ssh-rsa'' ?d,
                 ki_comment = ''revoked'', ki_options = [],
                 ki_full_line =
                   ''#ssh-rsa AAAAB3NzaC1yc2EAAAADAQABAAABAQC7vbqajDhA8sXk9F0eXAMPLEKE revoked'',
                 ki_line_number = None \<rparr>"
    by (simp add: parse_authorized_key_line_def Let_def sp)
  have s2: "step_key_data (authorized_keys revoked_world)
        (Some (parse_ssh_connection_line scenario_log_line))
      = parse_authorized_key_line
          ''#ssh-rsa AAAAB3NzaC1yc2EAAAADAQABAAABAQC7vbqajDhA8sXk9F0eXAMPLEKE revoked''"
    by (simp add: step_key_data_def kd keys scan)
  have res: "resolve revoked_world ''10.0.0.5'' ''alice''
      = parse_authorized_key_line
          ''#ssh-rsa AAAAB3NzaC1yc2EAAAADAQABAAABAQC7vbqajDhA8sXk9F0eXAMPLEKE revoked''"
    by (simp add: resolve_def find_key_by_ip_and_user_def conn s1 s2 p)
  show ?thesis
    using e0 e1 d1 conn fp kd
    by (simp add: idx find_key_by_fingerprint_def dict_get_def c1 s1 res p)
qed

text \<open>
  C2 (registry precedence).  Two entry lines share their key data.  When every other line
  of the file is blank or begins with \<open>#\<close>, the property holds: the fingerprint lookup on
  the loaded index gives the entry of the later line, and \<open>_find_key_by_data\<close> gives the
  entry parsed from the earlier one (lemma \<open>registry_precedence_plain_comments\<close>).  The two
  readers of the file differ, though, on a line whose \<open>#\<close> follows leading blanks: the
  loader strips the line before it tests for \<open>#\<close> and passes over it, while
  \<open>_find_key_by_data\<close> tests the line as read and takes it for an entry.  On the file
  \<open>precedence_file\<close>, whose first line is such a commented-out key, the index holds one
  entry, that of the later of the two entry lines, but the key-data lookup returns the line
  that was commented out, not the earlier entry line.  Read the other way, with a comment
  line being a line that begins with \<open>#\<close> as read, \<open>skipped_later_file\<close> has two
  non-comment lines with the same key data, and the fingerprint lookup returns the entry of
  the earlier one, the loader having passed over the later.
\<close>

theorem key_data_lookup_returns_commented_line:
  "\<not> entry_line old_line \<and> entry_line first_line \<and> entry_line second_line
   \<and> data_token first_line = ''AAAA'' \<and> data_token second_line = ''AAAA''
   \<and> length (load_authorized_keys precedence_file) = 1
   \<and> map_option ki_comment
        (find_key_by_fingerprint (load_authorized_keys precedence_file)
           (generate_fingerprint ''ssh-rsa'' ''AAAA'')) = Some ''second''
   \<and> map_option ki_comment (parse_authorized_key_line (py_strip first_line)) = Some ''first''
   \<and> map_option ki_type (find_key_by_data precedence_file ''AAAA'') = Some ''#ssh-rsa''
   \<and> map_option ki_comment (find_key_by_data precedence_file ''AAAA'') = Some ''old''
   \<and> \<not> prefix ''#'' first_line \<and> \<not> prefix ''#'' old_line \<and> data_token old_line = ''AAAA''
   \<and> map_option ki_comment
        (find_key_by_fingerprint (load_authorized_keys skipped_later_file)
           (generate_fingerprint ''ssh-rsa'' ''AAAA'')) = Some ''first''"
proof -
  have e0: "\<not> entry_line old_line"
    by (simp add: entry_line_def strip_old)
  have e1: "entry_line first_line"
    by (simp add: entry_line_def strip_first split_first)
  have e2: "entry_line second_line"
    by (simp add: entry_line_def strip_second split_second)
  have d0: "data_token old_line = ''AAAA''"
    by (simp add: data_token_def strip_old split_old)
  have d1: "data_token first_line = ''AAAA''"
    by (simp add: data_token_def strip_first split_first)
  have d2: "data_token second_line = ''AAAA''"
    by (simp add: data_token_def strip_second split_second)
  have f1: "ki_fingerprint (entry_of n first_line) = generate_fingerprint ''ssh-rsa'' ''AAAA''"
    for n
    using entry_fingerprint [OF e1] d1 by simp
  have f2: "ki_fingerprint (entry_of n second_line) = generate_fingerprint ''ssh-rsa'' ''AAAA''"
    for n
    using entry_fingerprint [OF e2] d2 by simp
  have idx: "load_authorized_keys precedence_file
      = [(generate_fingerprint ''ssh-rsa'' ''AAAA'', entry_of 3 second_line)]"
    using e0 e1 e2
    by (simp add: precedence_file_def load_authorized_keys_def load_loop_skip load_loop_entry
        f1 f2 dict_set_def numeral_3_eq_3 del: load_loop.simps(2))
  have idx': "load_authorized_keys skipped_later_file
      = [(generate_fingerprint ''ssh-rsa'' ''AAAA'', entry_of 1 first_line)]"
    using e0 e1
    by (simp add: skipped_later_file_def load_authorized_keys_def load_loop_skip load_loop_entry
        f1 dict_set_def del: load_loop.simps(2))
  have c1: "ki_comment (entry_of n first_line) = ''first''" for n
    by (simp add: entry_of_def parse_authorized_key_line_def Let_def strip_first split_first)
  have c2: "ki_comment (entry_of n second_line) = ''second''" for n
    by (simp add: entry_of_def parse_authorized_key_line_def Let_def strip_second split_second)
  have p1: "map_option ki_comment (parse_authorized_key_line (py_strip first_line)) = Some ''first''"
    by (simp add: parse_authorized_key_line_def Let_def strip_first split_first)
  have nh: "\<not> prefix ''#'' old_line"
    by (simp add: old_line_def)
  have nh1: "\<not> prefix ''#'' first_line"
    by (simp add: first_line_def)
  have scan: "find_key_by_data precedence_file ''AAAA''
      = parse_authorized_key_line ''#ssh-rsa AAAA old''"
    using nh
    by (simp add: precedence_file_def find_key_by_data_def strip_old split_old)
  have t: "map_option ki_type (parse_authorized_key_line ''#ssh-rsa AAAA old'') = Some ''#ssh-rsa''"
    by (simp add: parse_authorized_key_line_def Let_def split_old)
  have c: "map_option ki_comment (parse_authorized_key_line ''#ssh-rsa AAAA old'') = Some ''old''"
    by (simp add: parse_authorized_key_line_def Let_def split_old)
  show ?thesis
    using e0 e1 e2 d0 d1 d2 p1 nh nh1
    by (simp add: idx idx' find_key_by_fingerprint_def dict_get_def c1 c2 scan t c)
qed

text \<open>
  C3 (fingerprint format).  When the key data decodes as base64, \<open>_generate_fingerprint\<close>
  returns the MD5 digest of the decoded bytes, each of its 16 octets written as two
  lowercase hexadecimal characters, the octets separated by colons (47 characters in all).
  The result is determined by the decoded bytes: another key type, or other key data that
  decodes to the same bytes, gives the same fingerprint.  The witness computes the
  fingerprint of the key data \<open>AAAA\<close> (three zero bytes).
\<close>

theorem fingerprint_format:
  "b64decode key_data = Inr key_bytes \<longrightarrow>
     generate_fingerprint key_type key_data = colon_hex (md5 key_bytes)
     \<and> length (md5 key_bytes) = 16
     \<and> (\<forall>b. length (hex2 b) = 2 \<and> set (hex2 b) \<subseteq> set ''0123456789abcdef'')
     \<and> length (generate_fingerprint key_type key_data) = 47
     \<and> (\<forall>other_type other_data. b64decode other_data = Inr key_bytes \<longrightarrow>
           generate_fingerprint other_type other_data
             = generate_fingerprint key_type key_data)"
proof
  assume d: "b64decode key_data = Inr key_bytes"
  have same: "generate_fingerprint other_type other_data = generate_fingerprint key_type key_data"
    if "b64decode other_data = Inr key_bytes" for other_type other_data
    using generate_fingerprint_decoded [OF that] generate_fingerprint_decoded [OF d] by simp
  have pair: "length (hex2 b) = 2 \<and> set (hex2 b) \<subseteq> set ''0123456789abcdef''" for b
    using set_hex2 [of b] length_hex2 [of b] by blast
  show "generate_fingerprint key_type key_data = colon_hex (md5 key_bytes)
     \<and> length (md5 key_bytes) = 16
     \<and> (\<forall>b. length (hex2 b) = 2 \<and> set (hex2 b) \<subseteq> set ''0123456789abcdef'')
     \<and> length (generate_fingerprint key_type key_data) = 47
     \<and> (\<forall>other_type other_data. b64decode other_data = Inr key_bytes \<longrightarrow>
           generate_fingerprint other_type other_data
             = generate_fingerprint key_type key_data)"
    using generate_fingerprint_decoded [OF d] length_md5 [of key_bytes] pair
      length_generate_fingerprint [OF d] same
    by blast
qed

theorem fingerprint_format_witness:
  "b64decode ''AAAA'' = Inr [0, 0, 0]
   \<and> b64decode ''AA-AA==='' = Inr [0, 0, 0]
   \<and> generate_fingerprint ''ssh-rsa'' ''AAAA'' = colon_hex (md5 [0, 0, 0])
   \<and> generate_fingerprint ''ssh-ed25519'' ''AA-AA==='' = generate_fingerprint ''ssh-rsa'' ''AAAA''
   \<and> generate_fingerprint ''ssh-rsa'' ''AAAA'' = ''69:3e:9a:f8:4d:3d:fc:c7:1e:64:0e:00:5b:dc:5e:2e''"
proof -
  have d1: "b64decode ''AAAA'' = Inr [0, 0, 0]"
    by (simp add: b64decode_def table_a2b_base64_def)
  have d2: "b64decode ''AA-AA==='' = Inr [0, 0, 0]"
    by (simp add: b64decode_def table_a2b_base64_def)
  have v: "generate_fingerprint ''ssh-rsa'' ''AAAA'' = ''69:3e:9a:f8:4d:3d:fc:c7:1e:64:0e:00:5b:dc:5e:2e''"
    by code_simp
  show ?thesis
    using fingerprint_format [of "''AAAA''" "[0, 0, 0]" "''ssh-rsa''"] d1 d2 v
    by blast
qed

text \<open>
  C4 (decode-failure degrade).  Whenever decoding the key data as base64 fails, with either
  of the two exceptions the decoder can raise, \<open>_generate_fingerprint\<close> returns the sentinel
  \<open>unknown\<close>; it is a total function, so no failure reaches the caller.  The witness is the
  input \<open>not-base64!!\<close> of the specification.
\<close>

theorem generate_fingerprint_decode_failure:
  "b64decode key_data = Inl e \<Longrightarrow> generate_fingerprint key_type key_data = ''unknown''"
  by (simp add: generate_fingerprint_def)

theorem generate_fingerprint_decode_failure_witness:
  "b64decode ''not-base64!!'' = Inl BinasciiError
   \<and> generate_fingerprint ''ssh-rsa'' ''not-base64!!'' = ''unknown''"
proof -
  have h: "b64decode ''not-base64!!'' = Inl BinasciiError"
    by (simp add: b64decode_def table_a2b_base64_def)
  show ?thesis
    using h generate_fingerprint_decode_failure [OF h, of "''ssh-rsa''"] by simp
qed

text \<open>
  C5 (log window bound).  For \<open>max_lines\<close> of at least 1 the result of
  \<open>find_recent_ssh_connection\<close> depends on the last \<open>max_lines\<close> lines only (lemma
  \<open>window_bound_positive\<close>).  For \<open>max_lines = 0\<close> the slice \<open>lines[-0:]\<close> is the whole
  list: a log of one matching line and the empty log agree on their last 0 lines, and the
  first gives a connection record while the second gives nothing.
\<close>

theorem window_bound_fails_for_zero:
  "last_lines 0 [scenario_log_line] = last_lines 0 []
   \<and> find_recent_ssh_connection (Lines []) ''10.0.0.5'' ''alice'' 0 = None
   \<and> recent_lines [scenario_log_line] 0 = [scenario_log_line]
   \<and> find_recent_ssh_connection (Lines [scenario_log_line]) ''10.0.0.5'' ''alice'' 0
       = Some (parse_ssh_connection_line scenario_log_line)"
proof -
  have m: "is_ssh_connection_line scenario_log_line ''10.0.0.5'' ''alice''"
    by (simp add: is_ssh_connection_line_def scenario_log_line_def)
  have r: "recent_lines [scenario_log_line] 0 = [scenario_log_line]"
    by (simp add: recent_lines_def py_slice_from_def)
  have r0: "recent_lines [] 0 = []"
    by (simp add: recent_lines_def)
  show ?thesis
    using m by (simp add: find_recent_ssh_connection_def r r0 last_lines_def)
qed

text \<open>
  C6 (auth-method extraction priority).  \<open>_parse_ssh_connection_line\<close> sets the auth method
  by substring tests in the order publickey, password, keyboard-interactive, the first hit
  winning, and leaves it \<open>unknown\<close> when none of the three occurs.  The witness is a line that
  holds both \<open>publickey\<close> and \<open>password\<close>.
\<close>

theorem auth_method_priority:
  "(contains line ''publickey'' \<longrightarrow>
      ci_auth_method (parse_ssh_connection_line line) = ''publickey'')
   \<and> (\<not> contains line ''publickey'' \<and> contains line ''password'' \<longrightarrow>
      ci_auth_method (parse_ssh_connection_line line) = ''password'')
   \<and> (\<not> contains line ''publickey'' \<and> \<not> contains line ''password''
        \<and> contains line ''keyboard-interactive'' \<longrightarrow>
      ci_auth_method (parse_ssh_connection_line line) = ''keyboard-interactive'')
   \<and> (\<not> contains line ''publickey'' \<and> \<not> contains line ''password''
        \<and> \<not> contains line ''keyboard-interactive'' \<longrightarrow>
      ci_auth_method (parse_ssh_connection_line line) = ''unknown'')"
  by (simp add: parse_ssh_connection_line_def)

theorem auth_method_priority_witness:
  "contains ''sshd[7]: Accepted password for bob from 10.0.0.9 port 22 ssh2 (publickey tried)''
     ''publickey''
   \<and> contains ''sshd[7]: Accepted password for bob from 10.0.0.9 port 22 ssh2 (publickey tried)''
     ''password''
   \<and> ci_auth_method (parse_ssh_connection_line
        ''sshd[7]: Accepted password for bob from 10.0.0.9 port 22 ssh2 (publickey tried)'')
      = ''publickey''"
  using auth_method_priority
    [of "''sshd[7]: Accepted password for bob from 10.0.0.9 port 22 ssh2 (publickey tried)''"]
  by simp

text \<open>
  C7 (option and comment token range).  For a registry line with at least two tokens,
  \<open>_parse_authorized_key_line\<close> returns an entry whose comment is the token at index 2
  (the empty string when there is none) and whose options are exactly those of the tokens
  at the indexes from 2 up to, not including, the last index that hold an \<open>=\<close>, split at
  the first \<open>=\<close>.  So a line of three tokens has no options, and on a longer line a token
  at index 2 that holds an \<open>=\<close> is both the comment and an option source.  The witness is
  the line of the specification's option-parsing scenario, and a line with a plain comment.
\<close>

theorem parse_line_token_range:
  assumes "2 \<le> length (py_split line)"
  shows "\<exists>k. parse_authorized_key_line line = Some k
      \<and> ki_type k = py_split line ! 0 \<and> ki_data k = py_split line ! 1
      \<and> ki_comment k = (if 2 < length (py_split line) then py_split line ! 2 else [])
      \<and> ki_options k = options_of (option_tokens (py_split line))
      \<and> (length (py_split line) \<le> 3 \<longrightarrow> ki_options k = [])
      \<and> (3 < length (py_split line) \<and> CHR ''='' \<in> set (py_split line ! 2) \<longrightarrow>
            ki_comment k = py_split line ! 2
            \<and> py_split line ! 2 \<in> set (option_tokens (py_split line)))"
proof (cases "3 < length (py_split line)")
  case True
  then show ?thesis
    using assms comment_is_option_token [of "py_split line"]
    by (simp add: parse_authorized_key_line_def Let_def options_loop_token_range)
next
  case False
  then have "option_tokens (py_split line) = []"
    by (simp add: option_tokens_short)
  with False show ?thesis
    using assms by (simp add: parse_authorized_key_line_def Let_def options_of_def)
qed

theorem parse_line_token_range_witness:
  "2 \<le> length (py_split ''ssh-rsa AAAA SSH_USER=alice comment-text'')
   \<and> (\<exists>k. parse_authorized_key_line ''ssh-rsa AAAA SSH_USER=alice comment-text'' = Some k
        \<and> ki_comment k = ''SSH_USER=alice'' \<and> ki_options k = [(''SSH_USER'', ''alice'')])
   \<and> (\<exists>k. parse_authorized_key_line ''ssh-rsa AAAA laptop'' = Some k
        \<and> ki_comment k = ''laptop'' \<and> ki_options k = [])"
proof -
  have o: "options_of (option_tokens [''ssh-rsa'', ''AAAA'', ''SSH_USER=alice'', ''comment-text''])
      = [(''SSH_USER'', ''alice'')]"
    by code_simp
  show ?thesis
    using parse_line_token_range [of "''ssh-rsa AAAA SSH_USER=alice comment-text''"]
      parse_line_token_range [of "''ssh-rsa AAAA laptop''"]
    unfolding split_option_line split_plain_line o by auto
qed

text \<open>
  C8 (no-evidence totality).  With a registry file that is missing or holds no entry (it is
  empty, or each of its lines is blank or begins with \<open>#\<close>) and neither
  \<open>SSH_KEY_FINGERPRINT\<close> nor \<open>SSH_KEY_COMMENT\<close> set, \<open>find_key_by_ip_and_user\<close> returns
  \<open>None\<close> for every address and user name, whatever the auth log is: missing, unreadable,
  without a matching line or with one.  The function is total, so it returns and nothing
  is raised.
\<close>

theorem resolve_no_evidence:
  assumes "authorized_keys w = Missing
      \<or> (\<exists>ls. authorized_keys w = Lines ls \<and> (\<forall>x \<in> set ls. passed_over x))"
    and "environ w ''SSH_KEY_FINGERPRINT'' = None"
    and "environ w ''SSH_KEY_COMMENT'' = None"
  shows "resolve w ip_address username = None"
proof -
  have cache: "load_authorized_keys (authorized_keys w) = []"
    using assms(1) by (auto simp: load_authorized_keys_def load_loop_passed_over)
  have data: "find_key_by_data (authorized_keys w) d = None" for d
    using assms(1) find_key_by_data_loop_passed_over [of _ "[]" d]
    by (auto simp: find_key_by_data_def)
  have s1: "step_fingerprint [] c = None" for c
    by (simp add: step_fingerprint_def find_key_by_fingerprint_def dict_get_def
        split: option.splits)
  have s2: "step_key_data (authorized_keys w) c = None" for c
    by (simp add: step_key_data_def data split: option.splits)
  have m2: "method2_loop (authorized_keys w) ip_address ls = None" for ls
    using data by (rule method2_loop_no_entry)
  have env: "find_key_from_ssh_environment [] (environ w) = None"
    using assms(2,3) by (simp add: find_key_from_ssh_environment_def)
  show ?thesis
    by (simp add: resolve_def find_key_by_ip_and_user_def cache s1 s2 m2 env
        split: text_file.splits)
qed

theorem resolve_no_evidence_witness:
  "resolve no_evidence_world ''10.0.0.5'' ''alice'' = None
   \<and> resolve (no_evidence_world\<lparr>authorized_keys := Missing, auth_log := Missing\<rparr>)
        ''10.0.0.5'' ''alice'' = None"
proof -
  have p: "passed_over ''# no keys yet''"
    by (simp add: passed_over_def)
  show ?thesis
    using p resolve_no_evidence [of no_evidence_world "''10.0.0.5''" "''alice''"]
      resolve_no_evidence
        [of "no_evidence_world\<lparr>authorized_keys := Missing, auth_log := Missing\<rparr>"
            "''10.0.0.5''" "''alice''"]
    by (simp add: no_evidence_world_def)
qed

text \<open>
  C9 (the sentinel is a live index key).  Let a registry file hold an entry line whose key
  data fails to decode, with no such line after it.  Then the loaded index maps the key
  \<open>unknown\<close> to the entry of that line (with its line number), so the fingerprint lookup
  of \<open>unknown\<close> returns an entry; the index has exactly one slot for that key, and every
  entry line with undecodable key data has the fingerprint \<open>unknown\<close>, so all of them
  fall into that slot.  In the witness two such lines are loaded and the second one is found.
\<close>

theorem unknown_is_live_index_key:
  assumes "undecodable_entry l" and "\<forall>x \<in> set post. \<not> undecodable_entry x"
  shows "parse_authorized_key_line (py_strip l) \<noteq> None
     \<and> find_key_by_fingerprint (load_authorized_keys (Lines (pre @ l # post))) ''unknown''
         = Some (entry_of (length pre + 1) l)
     \<and> length (filter (\<lambda>p. fst p = ''unknown'') (load_authorized_keys (Lines (pre @ l # post)))) = 1
     \<and> (\<forall>x n. undecodable_entry x \<longrightarrow> ki_fingerprint (entry_of n x) = ''unknown'')"
proof -
  let ?cache = "load_authorized_keys (Lines (pre @ l # post))"
  let ?e = "entry_of (length pre + 1) l"
  have el: "entry_line l"
    using assms(1) by (simp add: undecodable_entry_def)
  have fp: "ki_fingerprint ?e = ''unknown''"
    using assms(1) by (rule undecodable_fingerprint)
  have "?cache = load_loop (dict_set (load_loop [] 1 pre) ''unknown'' ?e) (length pre + 2) post"
    using el fp
    by (simp add: load_authorized_keys_def load_loop_append load_loop_entry add.commute
        del: load_loop.simps)
  then have get: "dict_get ?cache ''unknown'' = Some ?e"
    using assms(2) by (simp add: load_loop_keeps_unknown dict_get_set)
  have "distinct (map fst ?cache)"
    by (simp add: load_authorized_keys_def load_loop_distinct)
  then have one: "length (filter (\<lambda>p. fst p = ''unknown'') ?cache) = 1"
    using get by (rule one_slot_per_key)
  have some: "parse_authorized_key_line (py_strip l) \<noteq> None"
    using parse_entry_line(1) [OF el, of 0] by simp
  show ?thesis
    using some get one undecodable_fingerprint
    by (simp add: find_key_by_fingerprint_def)
qed

theorem unknown_is_live_index_key_witness:
  "undecodable_entry ''ssh-rsa AAA second''
   \<and> \<not> undecodable_entry []
   \<and> find_key_by_fingerprint
        (load_authorized_keys (Lines [''ssh-rsa not-base64!! first'', ''ssh-rsa AAA second'', []]))
        ''unknown'' = Some (entry_of 2 ''ssh-rsa AAA second'')
   \<and> ki_comment (entry_of 2 ''ssh-rsa AAA second'') = ''second''
   \<and> ki_line_number (entry_of 2 ''ssh-rsa AAA second'') = Some 2"
proof -
  have sp: "py_split ''ssh-rsa AAA second'' = [''ssh-rsa'', ''AAA'', ''second'']"
    by (simp add: py_split_def py_isspace_def)
  have st: "py_strip ''ssh-rsa AAA second'' = ''ssh-rsa AAA second''"
    by (simp add: py_strip_def py_isspace_def)
  have dec: "b64decode ''AAA'' = Inl BinasciiError"
    by (simp add: b64decode_def table_a2b_base64_def)
  have u: "undecodable_entry ''ssh-rsa AAA second''"
    by (simp add: undecodable_entry_def entry_line_def data_token_def st sp dec)
  have n: "\<forall>x \<in> set [[]]. \<not> undecodable_entry x"
    by (simp add: undecodable_entry_def entry_line_def py_strip_def)
  have c: "ki_comment (entry_of 2 ''ssh-rsa AAA second'') = ''second''"
    by (simp add: entry_of_def parse_authorized_key_line_def Let_def st sp)
  have ln: "ki_line_number (entry_of 2 ''ssh-rsa AAA second'') = Some 2"
    by (simp add: entry_of_def)
  show ?thesis
    using unknown_is_live_index_key [OF u n, of "[''ssh-rsa not-base64!! first'']"] u n c ln
    by (simp add: numeral_2_eq_2)
qed

text \<open>
  C10 (the environment fingerprint suppresses the comment fallback).  In
  \<open>_find_key_from_ssh_environment\<close>, a non-empty \<open>SSH_KEY_FINGERPRINT\<close> makes the step
  return the fingerprint lookup as it is, absent when nothing matches, and the result does
  not depend on \<open>SSH_KEY_COMMENT\<close>; with the fingerprint unset or empty the step is the
  comment scan.  In the witness the comment hint names an indexed key and the fingerprint
  hint matches nothing: the step returns nothing, and returns the key once the fingerprint
  hint is removed.
\<close>

theorem environment_fingerprint_suppresses_comment_scan:
  "(env ''SSH_KEY_FINGERPRINT'' = Some fp \<and> fp \<noteq> [] \<longrightarrow>
      find_key_from_ssh_environment key_cache env = find_key_by_fingerprint key_cache fp
      \<and> find_key_from_ssh_environment key_cache (env(''SSH_KEY_COMMENT'' := hint))
          = find_key_from_ssh_environment key_cache env)
   \<and> (env ''SSH_KEY_FINGERPRINT'' = None \<or> env ''SSH_KEY_FINGERPRINT'' = Some [] \<longrightarrow>
      find_key_from_ssh_environment key_cache env
        = comment_scan key_cache (env ''SSH_KEY_COMMENT''))"
  by (auto simp: find_key_from_ssh_environment_def comment_scan_def dict_values_def Let_def
      split: option.splits)

theorem environment_fingerprint_suppresses_comment_scan_witness:
  "demo_env ''SSH_KEY_FINGERPRINT'' = Some ''cc:dd'' \<and> ''cc:dd'' \<noteq> []
   \<and> find_key_from_ssh_environment [(''aa:bb'', demo_key)] demo_env = None
   \<and> comment_scan [(''aa:bb'', demo_key)] (demo_env ''SSH_KEY_COMMENT'') = Some demo_key
   \<and> find_key_from_ssh_environment [(''aa:bb'', demo_key)]
        (demo_env(''SSH_KEY_FINGERPRINT'' := None)) = Some demo_key"
  using environment_fingerprint_suppresses_comment_scan
    [of demo_env "''cc:dd''" "[(''aa:bb'', demo_key)]" None]
    environment_fingerprint_suppresses_comment_scan
    [of "demo_env(''SSH_KEY_FINGERPRINT'' := None)" "''cc:dd''" "[(''aa:bb'', demo_key)]" None]
  by (simp add: demo_env_def demo_key_def find_key_by_fingerprint_def dict_get_def
      comment_scan_def)

end
